theory Spec2Isabelle
  imports Complex_Main "HOL-Library.AList"
begin

section \<open>JavaScript numbers\<close>

text \<open>
  The back-off delay is computed on JavaScript numbers, which are IEEE 754 binary64 values.
  A finite value is kept as the rational it denotes (\<open>Fin 0\<close> is \<open>+0\<close>); an arithmetic
  result is the exact rational result rounded to the nearest binary64 value, ties to the
  even significand, which is how IEEE 754 defines multiplication.  \<^verbatim>\<open>Math.pow\<close> with a
  natural exponent is taken to be correctly rounded as well (the language standard leaves
  its last bit to the engine).
\<close>

datatype Number = NaN | PosInf | NegInf | NegZero | Fin rat

fun bitLength :: "nat \<Rightarrow> nat" where
  "bitLength n = (if n = 0 then 0 else Suc (bitLength (n div 2)))"

declare bitLength.simps [simp del]

text \<open>The integer \<open>l\<close> with \<open>2 ^ l \<le> x < 2 ^ (l + 1)\<close>, for positive \<open>x\<close>.\<close>

definition floorLog2 :: "rat \<Rightarrow> int" where
  "floorLog2 x =
     (let (p, q) = quotient_of x;
          d = int (bitLength (nat p)) - int (bitLength (nat q))
      in if x < 2 powi d then d - 1 else d)"

definition roundHalfEven :: "rat \<Rightarrow> int" where
  "roundHalfEven y =
     (let n = \<lfloor>y\<rfloor>; r = y - of_int n
      in if r < 1 / 2 then n else if 1 / 2 < r then n + 1 else if even n then n else n + 1)"

text \<open>
  Rounding to binary64: 53 significant bits, the unit in the last place never below
  \<open>2 ^ - 1074\<close>, and infinity from \<open>2 ^ 1024\<close> on.
\<close>

definition roundToDouble :: "rat \<Rightarrow> Number" where
  "roundToDouble x =
     (if x = 0 then Fin 0
      else
        (let e = max (floorLog2 \<bar>x\<bar> - 52) (- 1074);
             m = roundHalfEven (\<bar>x\<bar> * 2 powi (- e))
         in if 971 < e \<or> e = 971 \<and> m = 2 ^ 53 then (if x < 0 then NegInf else PosInf)
            else if m = 0 then (if x < 0 then NegZero else Fin 0)
            else Fin (if x < 0 then - (of_int m * 2 powi e) else of_int m * 2 powi e)))"

definition negative :: "Number \<Rightarrow> bool" where
  "negative x = (case x of NegInf \<Rightarrow> True | NegZero \<Rightarrow> True | Fin r \<Rightarrow> r < 0 | _ \<Rightarrow> False)"

definition isZero :: "Number \<Rightarrow> bool" where
  "isZero x = (x = NegZero \<or> x = Fin 0)"

definition infinite :: "Number \<Rightarrow> bool" where
  "infinite x = (x = PosInf \<or> x = NegInf)"

definition valueOf :: "Number \<Rightarrow> rat" where
  "valueOf x = (case x of Fin r \<Rightarrow> r | _ \<Rightarrow> 0)"

text \<open>The operator \<^verbatim>\<open>*\<close>.\<close>

definition times :: "Number \<Rightarrow> Number \<Rightarrow> Number" where
  "times x y =
     (if x = NaN \<or> y = NaN then NaN
      else if infinite x \<or> infinite y then
        (if isZero x \<or> isZero y then NaN
         else if negative x = negative y then PosInf else NegInf)
      else if isZero x \<or> isZero y then
        (if negative x = negative y then Fin 0 else NegZero)
      else roundToDouble (valueOf x * valueOf y))"

text \<open>\<^verbatim>\<open>Math.pow(x, n)\<close> for a loop index \<open>n\<close>.\<close>

definition Math_pow :: "Number \<Rightarrow> nat \<Rightarrow> Number" where
  "Math_pow x n =
     (if n = 0 then Fin 1
      else case x of
        NaN \<Rightarrow> NaN
      | PosInf \<Rightarrow> PosInf
      | NegInf \<Rightarrow> (if odd n then NegInf else PosInf)
      | NegZero \<Rightarrow> (if odd n then NegZero else Fin 0)
      | Fin r \<Rightarrow> roundToDouble (r ^ n))"

definition tier :: "Number \<Rightarrow> int" where
  "tier x = (case x of NegInf \<Rightarrow> - 1 | PosInf \<Rightarrow> 1 | _ \<Rightarrow> 0)"

text \<open>The operator \<^verbatim>\<open><\<close>: false when an operand is \<^verbatim>\<open>NaN\<close>, and \<open>-0\<close> is not below \<open>+0\<close>.\<close>

definition lessThan :: "Number \<Rightarrow> Number \<Rightarrow> bool" where
  "lessThan x y \<longleftrightarrow>
     x \<noteq> NaN \<and> y \<noteq> NaN \<and> (tier x < tier y \<or> tier x = tier y \<and> valueOf x < valueOf y)"

text \<open>\<^verbatim>\<open>Math.min\<close> of two numbers: \<^verbatim>\<open>NaN\<close> when an operand is, and \<open>-0\<close> before \<open>+0\<close>.\<close>

definition Math_min :: "Number \<Rightarrow> Number \<Rightarrow> Number" where
  "Math_min x y =
     (if x = NaN \<or> y = NaN then NaN
      else if lessThan x y then x
      else if lessThan y x then y
      else if x = NegZero then x else y)"

section \<open>Data model of the email service\<close>

text \<open>
  The service of \<^verbatim>\<open>src/services/EmailService.js\<close> is embedded with explicit state
  passing.  Times are milliseconds (\<^typ>\<open>int\<close>), counters are natural numbers, the
  insertion-ordered \<^verbatim>\<open>Map\<close> of attempts is an association list written with
  \<^const>\<open>AList.update\<close> (an existing key keeps its place, a new key goes last), and the
  breaker registry and the listener registry are maps.
\<close>

datatype EmailStatus = PENDING | QUEUED | SENDING | SENT | FAILED | RATE_LIMITED

text \<open>A message: recipient, subject, body and the optional \<^verbatim>\<open>from\<close> address.\<close>

record Email =
  to :: string
  subject :: string
  body :: string
  sender :: "string option"

record Attempt =
  ident :: string
  email :: Email
  status :: EmailStatus
  attempts :: nat
  maxAttempts :: nat
  createdAt :: int
  updatedAt :: int
  sentAt :: "int option"
  messageId :: "string option"
  provider :: "string option"
  error :: "string option"

record CircuitBreaker =
  isOpen :: bool
  failureCount :: nat
  lastFailureTime :: "int option"
  halfOpenRetryTime :: "int option"

record Config =
  maxRetries :: nat
  initialDelayMs :: Number
  maxDelayMs :: Number
  backoffMultiplier :: Number
  circuitBreakerThreshold :: nat
  circuitBreakerResetTime :: int
  rateLimitPerMinute :: nat

record RateLimitState =
  count :: nat
  resetTime :: int

datatype LogLevel = INFO | WARN | ERROR

datatype LogValue =
  Str string | Num int | Dbl Number | Property "string option" | Names "string list" | Conf Config

record LogEntry =
  timestamp :: int
  level :: LogLevel
  message :: string
  data :: "(string \<times> LogValue) list"

text \<open>
  What JavaScript code throws is any value.  The service only ever reads the property
  \<^verbatim>\<open>message\<close> of what it catches, so a thrown value is either \<^verbatim>\<open>null\<close> or
  \<^verbatim>\<open>undefined\<close>, where reading the property raises a \<^verbatim>\<open>TypeError\<close>, or any other value
  with what its \<^verbatim>\<open>message\<close> reads (\<open>None\<close> for \<^verbatim>\<open>undefined\<close>).  The wording of the
  \<^verbatim>\<open>TypeError\<close> is the engine's; nothing below depends on it.
\<close>

datatype Thrown = Nullish | WithMessage "string option"

definition typeError :: Thrown where
  "typeError = WithMessage (Some ''Cannot read properties of undefined'')"

definition rateLimitError :: Thrown where
  "rateLimitError = WithMessage (Some ''Rate limit exceeded. Please try again later.'')"

text \<open>
  A listener is a callback compared by reference (\<open>lid\<close> stands for the reference).  Run
  on an attempt it returns (\<open>None\<close>) or throws.  Listeners are taken not to call back into
  the service and not to change the attempt they are handed.
\<close>

record Listener =
  lid :: nat
  handler :: "Attempt \<Rightarrow> Thrown option"

text \<open>
  How the promise of a provider's \<^verbatim>\<open>sendEmail\<close> settles: with a result whose
  \<^verbatim>\<open>success\<close> is true and its \<^verbatim>\<open>messageId\<close>, with a result whose \<^verbatim>\<open>success\<close> is
  false, with \<^verbatim>\<open>null\<close> or \<^verbatim>\<open>undefined\<close> for a result, or rejected with a thrown value.
\<close>

datatype Outcome = Success "string option" | Unsuccessful | NoResult | Rejected Thrown

text \<open>
  Where the one dispatcher (\<^verbatim>\<open>processQueue\<close> with the \<^verbatim>\<open>processEmailAttempt\<close> it
  awaits) is suspended between two turns of the event loop: nowhere; at
  \<^verbatim>\<open>await provider.sendEmail\<close> in round \<open>i\<close> of an attempt, with the providers still to
  try in this round; at the back-off timer after round \<open>i\<close>; or at
  \<^verbatim>\<open>await this.processEmailAttempt\<close> when that promise has settled, fulfilled (\<open>None\<close>)
  or rejected.
\<close>

datatype Dispatcher =
  Idle
| Awaiting string nat string "string list"
| Sleeping string nat
| Settled string "Thrown option"

text \<open>
  The observable history, in the order things happen: every \<^verbatim>\<open>attempts.set\<close>, every
  assignment to an attempt in the ledger that is not followed by a \<^verbatim>\<open>set\<close>, every
  \<^verbatim>\<open>emit\<close>, every listener call with what the listener did, every start of a retry
  round, every provider call (with the provider, the attempt, the time and the breaker the
  dispatcher found before its check), every provider response, every timer requested with
  \<^verbatim>\<open>setTimeout\<close> (with its delay), and every end of \<^verbatim>\<open>processEmailAttempt\<close>.
\<close>

datatype Action =
  Stored Attempt
| Mutated Attempt
| Emitted string Attempt
| Called nat string Attempt "Thrown option"
| RoundStarted string nat
| Invoked string string int "CircuitBreaker option"
| Responded string string Outcome
| TimerSet string nat Number
| Ended string "Thrown option"

text \<open>
  The fields of \<^verbatim>\<open>this\<close>, followed by what the code reads or leaves outside them: the
  clock (\<^verbatim>\<open>Date.now()\<close>, constant during one turn of the event loop), the point where
  the dispatcher is suspended, and the history.
\<close>

record Service =
  providers :: "string list"
  config :: Config
  attempts_map :: "(string \<times> Attempt) list"
  circuitBreakers :: "string \<rightharpoonup> CircuitBreaker"
  queue :: "string list"
  processingQueue :: bool
  logs :: "LogEntry list"
  eventListeners :: "string \<rightharpoonup> Listener list"
  rateLimitState :: RateLimitState
  clock :: int
  dispatcher :: Dispatcher
  trace :: "Action list"

section \<open>Logger\<close>

definition Logger_log :: "int \<Rightarrow> LogLevel \<Rightarrow> string \<Rightarrow> (string \<times> LogValue) list \<Rightarrow> LogEntry list \<Rightarrow> LogEntry list" where
  "Logger_log now lvl msg d ls =
     (let ls' = ls @ [\<lparr>timestamp = now, level = lvl, message = msg, data = d\<rparr>]
      in if length ls' > 100 then tl ls' else ls')"

definition logger_info :: "string \<Rightarrow> (string \<times> LogValue) list \<Rightarrow> Service \<Rightarrow> Service" where
  "logger_info msg d s = s\<lparr>logs := Logger_log (clock s) INFO msg d (logs s)\<rparr>"

definition logger_warn :: "string \<Rightarrow> (string \<times> LogValue) list \<Rightarrow> Service \<Rightarrow> Service" where
  "logger_warn msg d s = s\<lparr>logs := Logger_log (clock s) WARN msg d (logs s)\<rparr>"

definition logger_error :: "string \<Rightarrow> (string \<times> LogValue) list \<Rightarrow> Service \<Rightarrow> Service" where
  "logger_error msg d s = s\<lparr>logs := Logger_log (clock s) ERROR msg d (logs s)\<rparr>"

definition clearLogs :: "Service \<Rightarrow> Service" where
  "clearLogs s = s\<lparr>logs := []\<rparr>"

section \<open>Event system\<close>

definition on :: "string \<Rightarrow> Listener \<Rightarrow> Service \<Rightarrow> Service" where
  "on ev l s =
     (let ls = (case eventListeners s ev of None \<Rightarrow> [] | Some ls \<Rightarrow> ls)
      in s\<lparr>eventListeners := (eventListeners s)
            (ev \<mapsto> (if lid l \<in> lid ` set ls then ls else ls @ [l]))\<rparr>)"

definition off :: "string \<Rightarrow> Listener \<Rightarrow> Service \<Rightarrow> Service" where
  "off ev l s =
     (case eventListeners s ev of
        None \<Rightarrow> s
      | Some ls \<Rightarrow> s\<lparr>eventListeners := (eventListeners s)
            (ev \<mapsto> filter (\<lambda>x. lid x \<noteq> lid l) ls)\<rparr>)"

text \<open>
  The body of \<^verbatim>\<open>listeners.forEach\<close>: call the listener; the \<^verbatim>\<open>catch\<close> block reads
  \<^verbatim>\<open>error.message\<close> and logs it.  When the listener threw \<^verbatim>\<open>null\<close> or
  \<^verbatim>\<open>undefined\<close> that read raises a \<^verbatim>\<open>TypeError\<close> inside the \<^verbatim>\<open>catch\<close> block, before
  the logger is called, and the error leaves the callback.  The first component of the
  result is what the body raised, if anything.
\<close>

definition callListener :: "string \<Rightarrow> Attempt \<Rightarrow> Listener \<Rightarrow> Service \<Rightarrow> Thrown option \<times> Service" where
  "callListener ev a l s =
     (let s1 = s\<lparr>trace := trace s @ [Called (lid l) ev a (handler l a)]\<rparr>
      in case handler l a of
           None \<Rightarrow> (None, s1)
         | Some Nullish \<Rightarrow> (Some typeError, s1)
         | Some (WithMessage m) \<Rightarrow>
             (None, logger_error ''Event listener error''
                      [(''event'', Str ev), (''error'', Property m)] s1))"

text \<open>\<^verbatim>\<open>listeners.forEach\<close>: an error that leaves the callback ends the iteration.\<close>

fun forEachListener :: "string \<Rightarrow> Attempt \<Rightarrow> Listener list \<Rightarrow> Service \<Rightarrow> Thrown option \<times> Service" where
  "forEachListener ev a [] s = (None, s)"
| "forEachListener ev a (l # ls) s =
     (case callListener ev a l s of
        (None, s1) \<Rightarrow> forEachListener ev a ls s1
      | (Some e, s1) \<Rightarrow> (Some e, s1))"

definition emit :: "string \<Rightarrow> Attempt \<Rightarrow> Service \<Rightarrow> Thrown option \<times> Service" where
  "emit ev a s =
     (let s1 = s\<lparr>trace := trace s @ [Emitted ev a]\<rparr>
      in case eventListeners s1 ev of
           None \<Rightarrow> (None, s1)
         | Some ls \<Rightarrow> forEachListener ev a ls s1)"

section \<open>Rate limiter\<close>

definition checkRateLimit :: "Service \<Rightarrow> bool \<times> Service" where
  "checkRateLimit s =
     (let now = clock s;
          s1 = (if now \<ge> resetTime (rateLimitState s)
                then s\<lparr>rateLimitState := \<lparr>count = 0, resetTime = now + 60000\<rparr>\<rparr>
                else s)
      in (count (rateLimitState s1) < rateLimitPerMinute (config s1), s1))"

definition incrementRateLimit :: "Service \<Rightarrow> Service" where
  "incrementRateLimit s =
     s\<lparr>rateLimitState := (rateLimitState s)\<lparr>count := count (rateLimitState s) + 1\<rparr>\<rparr>"

section \<open>Circuit breakers\<close>

definition isCircuitBreakerOpen :: "string \<Rightarrow> Service \<Rightarrow> bool \<times> Service" where
  "isCircuitBreakerOpen providerName s =
     (case circuitBreakers s providerName of
        None \<Rightarrow> (False, s)
      | Some breaker \<Rightarrow>
          if isOpen breaker then
            (case halfOpenRetryTime breaker of
               Some t \<Rightarrow>
                 if clock s \<ge> t then
                   (False,
                    logger_info ''Circuit breaker half-open'' [(''provider'', Str providerName)]
                      (s\<lparr>circuitBreakers := (circuitBreakers s)
                           (providerName \<mapsto> breaker\<lparr>isOpen := False, halfOpenRetryTime := None\<rparr>)\<rparr>))
                 else (True, s)
             | None \<Rightarrow> (True, s))
          else (False, s))"

definition recordProviderSuccess :: "string \<Rightarrow> Service \<Rightarrow> Service" where
  "recordProviderSuccess providerName s =
     (case circuitBreakers s providerName of
        None \<Rightarrow> s
      | Some breaker \<Rightarrow>
          s\<lparr>circuitBreakers := (circuitBreakers s)
               (providerName \<mapsto> breaker\<lparr>failureCount := 0, isOpen := False,
                                  lastFailureTime := None, halfOpenRetryTime := None\<rparr>)\<rparr>)"

definition recordProviderFailure :: "string \<Rightarrow> Service \<Rightarrow> Service" where
  "recordProviderFailure providerName s =
     (case circuitBreakers s providerName of
        None \<Rightarrow> s
      | Some breaker \<Rightarrow>
          (let b1 = breaker\<lparr>failureCount := failureCount breaker + 1,
                            lastFailureTime := Some (clock s)\<rparr>
           in if failureCount b1 \<ge> circuitBreakerThreshold (config s) then
                logger_warn ''Circuit breaker opened''
                  [(''provider'', Str providerName), (''failureCount'', Num (int (failureCount b1)))]
                  (s\<lparr>circuitBreakers := (circuitBreakers s)
                       (providerName \<mapsto> b1\<lparr>isOpen := True,
                            halfOpenRetryTime := Some (clock s + circuitBreakerResetTime (config s))\<rparr>)\<rparr>)
              else s\<lparr>circuitBreakers := (circuitBreakers s)(providerName \<mapsto> b1)\<rparr>))"

section \<open>Dispatcher\<close>

text \<open>
  The attempt the dispatcher works on is the object stored in the map (identities are taken
  to be fresh, so no other object is ever stored under its key): an assignment to one of
  its fields changes the map entry, whether or not \<^verbatim>\<open>attempts.set\<close> follows.  Each
  function below is a piece of \<^verbatim>\<open>processEmailAttempt\<close> that runs without interruption,
  up to the next \<^verbatim>\<open>await\<close>; it ends by recording where the dispatcher is suspended.
\<close>

definition storeAttempt :: "Attempt \<Rightarrow> Service \<Rightarrow> Service" where
  "storeAttempt a s =
     s\<lparr>attempts_map := AList.update (ident a) a (attempts_map s), trace := trace s @ [Stored a]\<rparr>"

text \<open>\<^verbatim>\<open>processEmailAttempt\<close> returns (\<open>None\<close>) or raises: its promise settles.\<close>

definition settle :: "string \<Rightarrow> Thrown option \<Rightarrow> Service \<Rightarrow> Service" where
  "settle attemptId e s = s\<lparr>trace := trace s @ [Ended attemptId e], dispatcher := Settled attemptId e\<rparr>"

text \<open>The statements after the loop over the rounds: all retries exhausted.\<close>

definition exhausted :: "Attempt \<Rightarrow> Service \<Rightarrow> Service" where
  "exhausted a s =
     (let a1 = a\<lparr>status := FAILED, updatedAt := clock s\<rparr>;
          s1 = storeAttempt a1 s
      in case emit ''attemptUpdated'' a1 s1 of
           (Some e, s2) \<Rightarrow> settle (ident a) (Some e) s2
         | (None, s2) \<Rightarrow>
             settle (ident a) None
               (logger_error ''Email failed after all retries'' [(''attemptId'', Str (ident a1))] s2))"

definition backoffDelay :: "Config \<Rightarrow> nat \<Rightarrow> Number" where
  "backoffDelay c i =
     Math_min (times (initialDelayMs c) (Math_pow (backoffMultiplier c) i)) (maxDelayMs c)"

text \<open>
  The end of round \<open>i\<close>, after the loop over the providers: before the last round the
  dispatcher asks for a timer and is suspended until it fires; in the last round the test
  \<^verbatim>\<open>i < maxRetries - 1\<close> fails, \<^verbatim>\<open>i++\<close> makes the loop condition false and the
  statements after the loop follow.
\<close>

definition afterProviders :: "nat \<Rightarrow> Attempt \<Rightarrow> Service \<Rightarrow> Service" where
  "afterProviders i a s =
     (if int i < int (maxRetries (config s)) - 1 then
        (let delay = backoffDelay (config s) i;
             s1 = logger_info ''All providers failed, retrying after delay''
                    [(''attemptId'', Str (ident a)), (''delay'', Dbl delay),
                     (''attempt'', Num (int i + 1))] s
         in s1\<lparr>trace := trace s1 @ [TimerSet (ident a) i delay], dispatcher := Sleeping (ident a) i\<rparr>)
      else exhausted a s)"

text \<open>
  The loop \<^verbatim>\<open>for (const provider of this.providers)\<close> in round \<open>i\<close>, from the providers
  still to try: providers whose breaker is open are skipped; the first other provider is
  called, and the dispatcher is suspended on its promise.
\<close>

fun tryProviders :: "nat \<Rightarrow> string list \<Rightarrow> Attempt \<Rightarrow> Service \<Rightarrow> Service" where
  "tryProviders i [] a s = afterProviders i a s"
| "tryProviders i (p # ps) a s =
     (case isCircuitBreakerOpen p s of
        (True, s1) \<Rightarrow>
          tryProviders i ps a
            (logger_warn ''Circuit breaker open, skipping provider''
               [(''provider'', Str p), (''attemptId'', Str (ident a))] s1)
      | (False, s1) \<Rightarrow>
          (let s2 = logger_info ''Attempting to send email''
                      [(''provider'', Str p), (''attempt'', Num (int i + 1)),
                       (''attemptId'', Str (ident a))] s1
           in s2\<lparr>trace := trace s2 @ [Invoked p (ident a) (clock s2) (circuitBreakers s p)],
                  dispatcher := Awaiting (ident a) i p ps\<rparr>))"

text \<open>The start of round \<open>i\<close>, up to the first provider call of the round.\<close>

definition startRound :: "nat \<Rightarrow> Attempt \<Rightarrow> Service \<Rightarrow> Service" where
  "startRound i a s =
     (let a1 = a\<lparr>attempts := i + 1, updatedAt := clock s\<rparr>;
          s1 = storeAttempt a1 (s\<lparr>trace := trace s @ [RoundStarted (ident a) i]\<rparr>)
      in case emit ''attemptUpdated'' a1 s1 of
           (Some e, s2) \<Rightarrow> settle (ident a) (Some e) s2
         | (None, s2) \<Rightarrow> tryProviders i (providers s2) a1 s2)"

text \<open>\<^verbatim>\<open>processEmailAttempt\<close> from its first statement.\<close>

definition processEmailAttempt :: "Attempt \<Rightarrow> Service \<Rightarrow> Service" where
  "processEmailAttempt a s =
     (let a1 = a\<lparr>status := SENDING\<rparr>;
          s1 = storeAttempt a1 s
      in case emit ''attemptUpdated'' a1 s1 of
           (Some e, s2) \<Rightarrow> settle (ident a) (Some e) s2
         | (None, s2) \<Rightarrow>
             if 0 < maxRetries (config s2) then startRound 0 a1 s2 else exhausted a1 s2)"

text \<open>
  The \<^verbatim>\<open>catch\<close> block around the provider call, entered with the thrown value \<open>e\<close>, and
  the rest of the round.  The argument of \<^verbatim>\<open>logger.error\<close> reads \<^verbatim>\<open>error.message\<close>:
  for \<^verbatim>\<open>null\<close> or \<^verbatim>\<open>undefined\<close> that raises inside the \<^verbatim>\<open>catch\<close> block, and
  \<^verbatim>\<open>processEmailAttempt\<close> ends there with a \<^verbatim>\<open>TypeError\<close>.
\<close>

definition catchBlock :: "Thrown \<Rightarrow> nat \<Rightarrow> string \<Rightarrow> string list \<Rightarrow> Attempt \<Rightarrow> Service \<Rightarrow> Service" where
  "catchBlock e i p ps a s =
     (case e of
        Nullish \<Rightarrow> settle (ident a) (Some typeError) s
      | WithMessage m \<Rightarrow>
          (let s1 = logger_error ''Provider failed to send email''
                      [(''provider'', Str p), (''attemptId'', Str (ident a)),
                       (''error'', Property m)] s;
               s2 = recordProviderFailure p s1;
               a1 = a\<lparr>error := m\<rparr>;
               s3 = s2\<lparr>attempts_map := AList.update (ident a) a1 (attempts_map s2),
                       trace := trace s2 @ [Mutated a1]\<rparr>
           in tryProviders i ps a1 s3))"

text \<open>
  The continuation of \<^verbatim>\<open>await provider.sendEmail(attempt.email)\<close> in round \<open>i\<close>, for
  provider \<open>p\<close> with the providers \<open>ps\<close> still to try.  The \<^verbatim>\<open>emit\<close> of the success
  path is inside the \<^verbatim>\<open>try\<close> block, so an error it raises is caught like a provider
  failure.
\<close>

definition providerSettled :: "Outcome \<Rightarrow> nat \<Rightarrow> string \<Rightarrow> string list \<Rightarrow> Attempt \<Rightarrow> Service \<Rightarrow> Service" where
  "providerSettled out i p ps a s =
     (case out of
        Success mid \<Rightarrow>
          (let a1 = a\<lparr>status := SENT, sentAt := Some (clock s),
                      messageId := mid, provider := Some p\<rparr>;
               s1 = storeAttempt a1 s;
               s2 = recordProviderSuccess p s1;
               s3 = incrementRateLimit s2
           in case emit ''attemptUpdated'' a1 s3 of
                (Some e, s4) \<Rightarrow> catchBlock e i p ps a1 s4
              | (None, s4) \<Rightarrow>
                  settle (ident a) None
                    (logger_info ''Email sent successfully''
                       [(''attemptId'', Str (ident a1)), (''provider'', Str p),
                        (''messageId'', Property mid)] s4))
      | Unsuccessful \<Rightarrow> tryProviders i ps a s
      | NoResult \<Rightarrow> catchBlock typeError i p ps a s
      | Rejected e \<Rightarrow> catchBlock e i p ps a s)"

section \<open>The queue\<close>

text \<open>
  The loop of \<^verbatim>\<open>processQueue\<close> from its condition: identities without an attempt are
  dropped, the first attempt found is started, and \<^verbatim>\<open>processQueue\<close> is suspended on
  \<^verbatim>\<open>await this.processEmailAttempt(attempt)\<close>; with the queue empty the loop ends.
\<close>

function drainQueue :: "Service \<Rightarrow> Service" where
  "drainQueue s =
     (case queue s of
        [] \<Rightarrow> s\<lparr>processingQueue := False, dispatcher := Idle\<rparr>
      | attemptId # rest \<Rightarrow>
          (case map_of (attempts_map s) attemptId of
             None \<Rightarrow> drainQueue (s\<lparr>queue := rest\<rparr>)
           | Some attempt \<Rightarrow> processEmailAttempt attempt (s\<lparr>queue := rest\<rparr>)))"
  by pat_completeness auto
termination
  by (relation "measure (\<lambda>s. length (queue s))") auto

declare drainQueue.simps [simp del]

definition processQueue :: "Service \<Rightarrow> Service" where
  "processQueue s = (if processingQueue s then s else drainQueue (s\<lparr>processingQueue := True\<rparr>))"

section \<open>Submission\<close>

text \<open>The condition of the idempotency scan, at time \<open>now\<close>.\<close>

definition isDuplicateOf :: "Email \<Rightarrow> int \<Rightarrow> Attempt \<Rightarrow> bool" where
  "isDuplicateOf em now a \<longleftrightarrow>
     to (email a) = to em \<and>
     subject (email a) = subject em \<and>
     body (email a) = body em \<and>
     status a \<noteq> FAILED \<and>
     now - createdAt a < 300000"

definition findExistingAttempt :: "Email \<Rightarrow> Service \<Rightarrow> Attempt option" where
  "findExistingAttempt em s = find (isDuplicateOf em (clock s)) (map snd (attempts_map s))"

text \<open>The record \<^verbatim>\<open>const attempt = {...}\<close> that a submission creates.\<close>

definition newAttempt :: "Email \<Rightarrow> string \<Rightarrow> Service \<Rightarrow> Attempt" where
  "newAttempt em attemptId s =
     \<lparr>ident = attemptId, email = em, status = PENDING, attempts = 0,
      maxAttempts = maxRetries (config s), createdAt = clock s,
      updatedAt = clock s, sentAt = None, messageId = None,
      provider = None, error = None\<rparr>"

text \<open>
  \<^verbatim>\<open>sendEmail\<close> up to its \<^verbatim>\<open>return\<close> or \<^verbatim>\<open>throw\<close>; \<open>attemptId\<close> is what
  \<^verbatim>\<open>generateId()\<close> returned.  The call \<^verbatim>\<open>this.processQueue()\<close> before the
  \<^verbatim>\<open>return\<close> is not awaited, but it runs at once up to its first \<^verbatim>\<open>await\<close>: when no
  drain is under way the new attempt's first provider call is made inside the submission.
\<close>

definition sendEmail :: "Email \<Rightarrow> string \<Rightarrow> Service \<Rightarrow> (Thrown + string) \<times> Service" where
  "sendEmail em attemptId s =
     (case findExistingAttempt em s of
        Some existingAttempt \<Rightarrow>
          (Inr (ident existingAttempt),
           logger_warn ''Duplicate email detected''
             [(''attemptId'', Str attemptId), (''existingId'', Str (ident existingAttempt))] s)
      | None \<Rightarrow>
          (let attempt = newAttempt em attemptId s;
               s1 = storeAttempt attempt s
           in case emit ''attemptCreated'' attempt s1 of
                (Some e, s2) \<Rightarrow> (Inl e, s2)
              | (None, s2) \<Rightarrow>
                  (case checkRateLimit s2 of
                     (False, s3) \<Rightarrow>
                       (let attempt1 = attempt\<lparr>status := RATE_LIMITED,
                                               error := Some ''Rate limit exceeded''\<rparr>;
                            s4 = storeAttempt attempt1 s3
                        in case emit ''attemptUpdated'' attempt1 s4 of
                             (Some e, s5) \<Rightarrow> (Inl e, s5)
                           | (None, s5) \<Rightarrow>
                               (Inl rateLimitError,
                                logger_warn ''Rate limit exceeded'' [(''attemptId'', Str attemptId)] s5))
                   | (True, s3) \<Rightarrow>
                       (let s4 = s3\<lparr>queue := queue s3 @ [attemptId]\<rparr>;
                            attempt1 = attempt\<lparr>status := QUEUED\<rparr>;
                            s5 = storeAttempt attempt1 s4
                        in case emit ''attemptUpdated'' attempt1 s5 of
                             (Some e, s6) \<Rightarrow> (Inl e, s6)
                           | (None, s6) \<Rightarrow>
                               (let s7 = logger_info ''Email queued for sending''
                                           [(''attemptId'', Str attemptId), (''to'', Str (to em))] s6
                                in (Inr attemptId, processQueue s7))))))"

section \<open>The turns of the dispatcher\<close>

text \<open>
  What runs when the event loop resumes the dispatcher: the provider's promise has settled
  with \<open>out\<close>; the back-off timer has fired (\<^verbatim>\<open>i++\<close>, the loop condition, the next
  round); the promise of \<^verbatim>\<open>processEmailAttempt\<close> has settled and \<^verbatim>\<open>processQueue\<close> goes
  on, through its \<^verbatim>\<open>catch\<close> block when the promise was rejected.  The attempt is read from
  the ledger, where the dispatcher's object is.
\<close>

definition onResponse :: "Outcome \<Rightarrow> Service \<Rightarrow> Service" where
  "onResponse out s =
     (case dispatcher s of
        Awaiting attemptId i p ps \<Rightarrow>
          (case map_of (attempts_map s) attemptId of
             None \<Rightarrow> s
           | Some attempt \<Rightarrow>
               providerSettled out i p ps attempt
                 (s\<lparr>trace := trace s @ [Responded attemptId p out]\<rparr>))
      | _ \<Rightarrow> s)"

definition onTimer :: "Service \<Rightarrow> Service" where
  "onTimer s =
     (case dispatcher s of
        Sleeping attemptId i \<Rightarrow>
          (case map_of (attempts_map s) attemptId of
             None \<Rightarrow> s
           | Some attempt \<Rightarrow>
               if i + 1 < maxRetries (config s) then startRound (i + 1) attempt s
               else exhausted attempt s)
      | _ \<Rightarrow> s)"

definition onSettled :: "Service \<Rightarrow> Service" where
  "onSettled s =
     (case dispatcher s of
        Settled attemptId None \<Rightarrow> drainQueue s
      | Settled attemptId (Some Nullish) \<Rightarrow> s\<lparr>dispatcher := Idle\<rparr>
      | Settled attemptId (Some (WithMessage m)) \<Rightarrow>
          drainQueue
            (logger_error ''Error processing email attempt''
               [(''attemptId'', Str attemptId), (''error'', Property m)] s)
      | _ \<Rightarrow> s)"

section \<open>Construction\<close>

definition defaultConfig :: Config where
  "defaultConfig = \<lparr>maxRetries = 3, initialDelayMs = Fin 1000, maxDelayMs = Fin 10000,
     backoffMultiplier = Fin 2, circuitBreakerThreshold = 5, circuitBreakerResetTime = 60000,
     rateLimitPerMinute = 100\<rparr>"

definition EmailService :: "string list \<Rightarrow> Config \<Rightarrow> int \<Rightarrow> Service" where
  "EmailService ps c now =
     logger_info ''EmailService initialized'' [(''providers'', Names ps), (''config'', Conf c)]
       \<lparr>providers = ps, config = c, attempts_map = [],
        circuitBreakers = fold (\<lambda>p m. m(p \<mapsto> \<lparr>isOpen = False, failureCount = 0,
                                   lastFailureTime = None, halfOpenRetryTime = None\<rparr>)) ps Map.empty,
        queue = [], processingQueue = False, logs = [], eventListeners = Map.empty,
        rateLimitState = \<lparr>count = 0, resetTime = now + 60000\<rparr>,
        clock = now, dispatcher = Idle, trace = []\<rparr>"

section \<open>Runs of the service\<close>

text \<open>
  The service moves by submissions, by listeners being registered and removed, by the log
  being cleared, by time passing, and by the event loop resuming the dispatcher where it is
  suspended: with the settlement of the provider call it awaits (any outcome), with the
  firing of its timer, or after the end of \<^verbatim>\<open>processEmailAttempt\<close>.  All these can
  alternate in any order.  \<^verbatim>\<open>generateId()\<close> is taken to return an identity that is not
  yet in the ledger.
\<close>

inductive step :: "Service \<Rightarrow> Service \<Rightarrow> bool" where
  tick: "step s (s\<lparr>clock := clock s + int d\<rparr>)"
| subscribe: "step s (on ev l s)"
| unsubscribe: "step s (off ev l s)"
| clear: "step s (clearLogs s)"
| submit: "attemptId \<notin> fst ` set (attempts_map s) \<Longrightarrow> step s (snd (sendEmail em attemptId s))"
| respond: "dispatcher s = Awaiting attemptId i p ps \<Longrightarrow> step s (onResponse out s)"
| wake: "dispatcher s = Sleeping attemptId i \<Longrightarrow> step s (onTimer s)"
| resume: "dispatcher s = Settled attemptId e \<Longrightarrow> step s (onSettled s)"

definition reachable :: "Service \<Rightarrow> bool" where
  "reachable s \<longleftrightarrow> (\<exists>ps c now. step\<^sup>*\<^sup>* (EmailService ps c now) s)"

section \<open>What each operation leaves unchanged\<close>

lemma logger_info_frame [simp]:
  "providers (logger_info m d s) = providers s"
  "config (logger_info m d s) = config s"
  "attempts_map (logger_info m d s) = attempts_map s"
  "circuitBreakers (logger_info m d s) = circuitBreakers s"
  "queue (logger_info m d s) = queue s"
  "processingQueue (logger_info m d s) = processingQueue s"
  "eventListeners (logger_info m d s) = eventListeners s"
  "rateLimitState (logger_info m d s) = rateLimitState s"
  "clock (logger_info m d s) = clock s"
  "dispatcher (logger_info m d s) = dispatcher s"
  "trace (logger_info m d s) = trace s"
  by (simp_all add: logger_info_def)

lemma logger_warn_frame [simp]:
  "providers (logger_warn m d s) = providers s"
  "config (logger_warn m d s) = config s"
  "attempts_map (logger_warn m d s) = attempts_map s"
  "circuitBreakers (logger_warn m d s) = circuitBreakers s"
  "queue (logger_warn m d s) = queue s"
  "processingQueue (logger_warn m d s) = processingQueue s"
  "eventListeners (logger_warn m d s) = eventListeners s"
  "rateLimitState (logger_warn m d s) = rateLimitState s"
  "clock (logger_warn m d s) = clock s"
  "dispatcher (logger_warn m d s) = dispatcher s"
  "trace (logger_warn m d s) = trace s"
  by (simp_all add: logger_warn_def)

lemma logger_error_frame [simp]:
  "providers (logger_error m d s) = providers s"
  "config (logger_error m d s) = config s"
  "attempts_map (logger_error m d s) = attempts_map s"
  "circuitBreakers (logger_error m d s) = circuitBreakers s"
  "queue (logger_error m d s) = queue s"
  "processingQueue (logger_error m d s) = processingQueue s"
  "eventListeners (logger_error m d s) = eventListeners s"
  "rateLimitState (logger_error m d s) = rateLimitState s"
  "clock (logger_error m d s) = clock s"
  "dispatcher (logger_error m d s) = dispatcher s"
  "trace (logger_error m d s) = trace s"
  by (simp_all add: logger_error_def)

lemma clearLogs_frame [simp]:
  "providers (clearLogs s) = providers s"
  "config (clearLogs s) = config s"
  "attempts_map (clearLogs s) = attempts_map s"
  "circuitBreakers (clearLogs s) = circuitBreakers s"
  "queue (clearLogs s) = queue s"
  "processingQueue (clearLogs s) = processingQueue s"
  "eventListeners (clearLogs s) = eventListeners s"
  "rateLimitState (clearLogs s) = rateLimitState s"
  "clock (clearLogs s) = clock s"
  "dispatcher (clearLogs s) = dispatcher s"
  "trace (clearLogs s) = trace s"
  by (simp_all add: clearLogs_def)

lemma on_frame [simp]:
  "providers (on ev l s) = providers s"
  "config (on ev l s) = config s"
  "attempts_map (on ev l s) = attempts_map s"
  "circuitBreakers (on ev l s) = circuitBreakers s"
  "queue (on ev l s) = queue s"
  "processingQueue (on ev l s) = processingQueue s"
  "logs (on ev l s) = logs s"
  "rateLimitState (on ev l s) = rateLimitState s"
  "clock (on ev l s) = clock s"
  "dispatcher (on ev l s) = dispatcher s"
  "trace (on ev l s) = trace s"
  by (simp_all add: on_def Let_def)

lemma off_frame [simp]:
  "providers (off ev l s) = providers s"
  "config (off ev l s) = config s"
  "attempts_map (off ev l s) = attempts_map s"
  "circuitBreakers (off ev l s) = circuitBreakers s"
  "queue (off ev l s) = queue s"
  "processingQueue (off ev l s) = processingQueue s"
  "logs (off ev l s) = logs s"
  "rateLimitState (off ev l s) = rateLimitState s"
  "clock (off ev l s) = clock s"
  "dispatcher (off ev l s) = dispatcher s"
  "trace (off ev l s) = trace s"
  by (simp_all add: off_def split: option.splits)

lemma callListener_frame [simp]:
  "providers (snd (callListener ev a l s)) = providers s"
  "config (snd (callListener ev a l s)) = config s"
  "attempts_map (snd (callListener ev a l s)) = attempts_map s"
  "circuitBreakers (snd (callListener ev a l s)) = circuitBreakers s"
  "queue (snd (callListener ev a l s)) = queue s"
  "processingQueue (snd (callListener ev a l s)) = processingQueue s"
  "eventListeners (snd (callListener ev a l s)) = eventListeners s"
  "rateLimitState (snd (callListener ev a l s)) = rateLimitState s"
  "clock (snd (callListener ev a l s)) = clock s"
  "dispatcher (snd (callListener ev a l s)) = dispatcher s"
  by (simp_all add: callListener_def Let_def split: option.splits Thrown.splits)

lemma forEachListener_frame [simp]:
  "providers (snd (forEachListener ev a ls s)) = providers s"
  "config (snd (forEachListener ev a ls s)) = config s"
  "attempts_map (snd (forEachListener ev a ls s)) = attempts_map s"
  "circuitBreakers (snd (forEachListener ev a ls s)) = circuitBreakers s"
  "queue (snd (forEachListener ev a ls s)) = queue s"
  "processingQueue (snd (forEachListener ev a ls s)) = processingQueue s"
  "eventListeners (snd (forEachListener ev a ls s)) = eventListeners s"
  "rateLimitState (snd (forEachListener ev a ls s)) = rateLimitState s"
  "clock (snd (forEachListener ev a ls s)) = clock s"
  "dispatcher (snd (forEachListener ev a ls s)) = dispatcher s"
  by (induction ls arbitrary: s; simp split: prod.splits option.splits; metis callListener_frame snd_conv)+

lemma emit_frame [simp]:
  "providers (snd (emit ev a s)) = providers s"
  "config (snd (emit ev a s)) = config s"
  "attempts_map (snd (emit ev a s)) = attempts_map s"
  "circuitBreakers (snd (emit ev a s)) = circuitBreakers s"
  "queue (snd (emit ev a s)) = queue s"
  "processingQueue (snd (emit ev a s)) = processingQueue s"
  "eventListeners (snd (emit ev a s)) = eventListeners s"
  "rateLimitState (snd (emit ev a s)) = rateLimitState s"
  "clock (snd (emit ev a s)) = clock s"
  "dispatcher (snd (emit ev a s)) = dispatcher s"
  by (simp_all add: emit_def Let_def split: option.splits)

lemma checkRateLimit_frame [simp]:
  "providers (snd (checkRateLimit s)) = providers s"
  "config (snd (checkRateLimit s)) = config s"
  "attempts_map (snd (checkRateLimit s)) = attempts_map s"
  "circuitBreakers (snd (checkRateLimit s)) = circuitBreakers s"
  "queue (snd (checkRateLimit s)) = queue s"
  "processingQueue (snd (checkRateLimit s)) = processingQueue s"
  "logs (snd (checkRateLimit s)) = logs s"
  "eventListeners (snd (checkRateLimit s)) = eventListeners s"
  "clock (snd (checkRateLimit s)) = clock s"
  "dispatcher (snd (checkRateLimit s)) = dispatcher s"
  "trace (snd (checkRateLimit s)) = trace s"
  by (simp_all add: checkRateLimit_def Let_def)

lemma incrementRateLimit_frame [simp]:
  "providers (incrementRateLimit s) = providers s"
  "config (incrementRateLimit s) = config s"
  "attempts_map (incrementRateLimit s) = attempts_map s"
  "circuitBreakers (incrementRateLimit s) = circuitBreakers s"
  "queue (incrementRateLimit s) = queue s"
  "processingQueue (incrementRateLimit s) = processingQueue s"
  "logs (incrementRateLimit s) = logs s"
  "eventListeners (incrementRateLimit s) = eventListeners s"
  "clock (incrementRateLimit s) = clock s"
  "dispatcher (incrementRateLimit s) = dispatcher s"
  "trace (incrementRateLimit s) = trace s"
  by (simp_all add: incrementRateLimit_def)

lemma isCircuitBreakerOpen_frame [simp]:
  "providers (snd (isCircuitBreakerOpen p s)) = providers s"
  "config (snd (isCircuitBreakerOpen p s)) = config s"
  "attempts_map (snd (isCircuitBreakerOpen p s)) = attempts_map s"
  "queue (snd (isCircuitBreakerOpen p s)) = queue s"
  "processingQueue (snd (isCircuitBreakerOpen p s)) = processingQueue s"
  "eventListeners (snd (isCircuitBreakerOpen p s)) = eventListeners s"
  "rateLimitState (snd (isCircuitBreakerOpen p s)) = rateLimitState s"
  "clock (snd (isCircuitBreakerOpen p s)) = clock s"
  "dispatcher (snd (isCircuitBreakerOpen p s)) = dispatcher s"
  "trace (snd (isCircuitBreakerOpen p s)) = trace s"
  by (simp_all add: isCircuitBreakerOpen_def split: option.splits)

lemma recordProviderSuccess_frame [simp]:
  "providers (recordProviderSuccess p s) = providers s"
  "config (recordProviderSuccess p s) = config s"
  "attempts_map (recordProviderSuccess p s) = attempts_map s"
  "queue (recordProviderSuccess p s) = queue s"
  "processingQueue (recordProviderSuccess p s) = processingQueue s"
  "logs (recordProviderSuccess p s) = logs s"
  "eventListeners (recordProviderSuccess p s) = eventListeners s"
  "rateLimitState (recordProviderSuccess p s) = rateLimitState s"
  "clock (recordProviderSuccess p s) = clock s"
  "dispatcher (recordProviderSuccess p s) = dispatcher s"
  "trace (recordProviderSuccess p s) = trace s"
  by (simp_all add: recordProviderSuccess_def split: option.splits)

lemma recordProviderFailure_frame [simp]:
  "providers (recordProviderFailure p s) = providers s"
  "config (recordProviderFailure p s) = config s"
  "attempts_map (recordProviderFailure p s) = attempts_map s"
  "queue (recordProviderFailure p s) = queue s"
  "processingQueue (recordProviderFailure p s) = processingQueue s"
  "eventListeners (recordProviderFailure p s) = eventListeners s"
  "rateLimitState (recordProviderFailure p s) = rateLimitState s"
  "clock (recordProviderFailure p s) = clock s"
  "dispatcher (recordProviderFailure p s) = dispatcher s"
  "trace (recordProviderFailure p s) = trace s"
  by (simp_all add: recordProviderFailure_def Let_def split: option.splits)

lemma storeAttempt_frame [simp]:
  "providers (storeAttempt a s) = providers s"
  "config (storeAttempt a s) = config s"
  "circuitBreakers (storeAttempt a s) = circuitBreakers s"
  "queue (storeAttempt a s) = queue s"
  "processingQueue (storeAttempt a s) = processingQueue s"
  "logs (storeAttempt a s) = logs s"
  "eventListeners (storeAttempt a s) = eventListeners s"
  "rateLimitState (storeAttempt a s) = rateLimitState s"
  "clock (storeAttempt a s) = clock s"
  "dispatcher (storeAttempt a s) = dispatcher s"
  by (simp_all add: storeAttempt_def)

lemma settle_frame [simp]:
  "providers (settle k e s) = providers s"
  "config (settle k e s) = config s"
  "attempts_map (settle k e s) = attempts_map s"
  "circuitBreakers (settle k e s) = circuitBreakers s"
  "queue (settle k e s) = queue s"
  "processingQueue (settle k e s) = processingQueue s"
  "logs (settle k e s) = logs s"
  "eventListeners (settle k e s) = eventListeners s"
  "rateLimitState (settle k e s) = rateLimitState s"
  "clock (settle k e s) = clock s"
  by (simp_all add: settle_def)

section \<open>Fixtures of the repository's test suite\<close>

definition testConfig :: Config where
  "testConfig = \<lparr>maxRetries = 3, initialDelayMs = Fin 10, maxDelayMs = Fin 100,
     backoffMultiplier = Fin 2, circuitBreakerThreshold = 2, circuitBreakerResetTime = 1000,
     rateLimitPerMinute = 10\<rparr>"

definition testEmail :: "string \<Rightarrow> Email" where
  "testEmail addr = \<lparr>to = addr, subject = ''Test Subject'', body = ''Test Body'', sender = None\<rparr>"

definition testService :: "Config \<Rightarrow> Service" where
  "testService c = EmailService [''Provider1'', ''Provider2''] c 1000"




lemmas fixture_defs = testConfig_def testEmail_def testService_def EmailService_def

lemmas logger_defs = logger_info_def logger_warn_def logger_error_def Logger_log_def

section \<open>Circuit breaker transitions\<close>

text \<open>
  Claim C4.  For a provider with a breaker: recording a success sets the failure count to
  zero, closes the breaker and clears the resume time; recording a failure adds one to the
  failure count, and opens the breaker with resume time now plus the reset interval exactly
  when the new count has reached the threshold (otherwise the open flag and the resume time
  stay as they were).  No breaker operation on one provider changes the breaker of another.
\<close>

theorem breaker_transitions:
  assumes "circuitBreakers s p = Some b"
  shows "circuitBreakers (recordProviderSuccess p s) p =
           Some (b\<lparr>failureCount := 0, isOpen := False, lastFailureTime := None, halfOpenRetryTime := None\<rparr>) \<and>
         (\<exists>b'. circuitBreakers (recordProviderFailure p s) p = Some b' \<and>
           failureCount b' = failureCount b + 1 \<and>
           (if failureCount b + 1 \<ge> circuitBreakerThreshold (config s)
            then isOpen b' \<and> halfOpenRetryTime b' = Some (clock s + circuitBreakerResetTime (config s))
            else isOpen b' = isOpen b \<and> halfOpenRetryTime b' = halfOpenRetryTime b)) \<and>
         (\<forall>q. q \<noteq> p \<longrightarrow>
           circuitBreakers (recordProviderSuccess p s) q = circuitBreakers s q \<and>
           circuitBreakers (recordProviderFailure p s) q = circuitBreakers s q \<and>
           circuitBreakers (snd (isCircuitBreakerOpen p s)) q = circuitBreakers s q)"
  using assms
  by (auto simp add: recordProviderSuccess_def recordProviderFailure_def isCircuitBreakerOpen_def
      Let_def logger_warn_def logger_info_def split: option.splits)

theorem breaker_transitions_witness:
  "circuitBreakers (recordProviderFailure ''Provider1'' (testService testConfig)) ''Provider1'' =
     Some \<lparr>isOpen = False, failureCount = 1, lastFailureTime = Some 1000, halfOpenRetryTime = None\<rparr> \<and>
   (\<exists>b'. circuitBreakers (recordProviderFailure ''Provider1''
             (recordProviderFailure ''Provider1'' (testService testConfig))) ''Provider1'' = Some b' \<and>
          failureCount b' = 2 \<and> isOpen b' \<and> halfOpenRetryTime b' = Some 2000) \<and>
   circuitBreakers (recordProviderFailure ''Provider1''
             (recordProviderFailure ''Provider1'' (testService testConfig))) ''Provider2'' =
     Some \<lparr>isOpen = False, failureCount = 0, lastFailureTime = None, halfOpenRetryTime = None\<rparr>"
proof -
  let ?s1 = "recordProviderFailure ''Provider1'' (testService testConfig)"
  have b1: "circuitBreakers ?s1 ''Provider1'' =
     Some \<lparr>isOpen = False, failureCount = 1, lastFailureTime = Some 1000, halfOpenRetryTime = None\<rparr>"
    by (simp add: fixture_defs logger_defs recordProviderFailure_def Let_def)
  have b2: "circuitBreakers ?s1 ''Provider2'' =
     Some \<lparr>isOpen = False, failureCount = 0, lastFailureTime = None, halfOpenRetryTime = None\<rparr>"
    by (simp add: fixture_defs logger_defs recordProviderFailure_def Let_def)
  have c: "config ?s1 = testConfig" "clock ?s1 = 1000"
    by (simp_all add: fixture_defs logger_defs)
  note T = breaker_transitions [OF b1]
  have t1: "\<exists>b'. circuitBreakers (recordProviderFailure ''Provider1'' ?s1) ''Provider1'' = Some b' \<and>
          failureCount b' = 2 \<and> isOpen b' \<and> halfOpenRetryTime b' = Some 2000"
    using T [THEN conjunct2, THEN conjunct1] c by (auto simp add: testConfig_def)
  have t2: "circuitBreakers (recordProviderFailure ''Provider1'' ?s1) ''Provider2'' =
          circuitBreakers ?s1 ''Provider2''"
    using T [THEN conjunct2, THEN conjunct2, rule_format, of "''Provider2''"] by simp
  show ?thesis
    using b1 t1 t2 b2 by simp
qed

section \<open>Publishing events\<close>

definition subscribers :: "string \<Rightarrow> Service \<Rightarrow> Listener list" where
  "subscribers ev s = (case eventListeners s ev of None \<Rightarrow> [] | Some ls \<Rightarrow> ls)"




text \<open>The last \<open>n\<close> elements of a list.\<close>

definition lastN :: "nat \<Rightarrow> 'a list \<Rightarrow> 'a list" where
  "lastN n xs = drop (length xs - n) xs"

lemma lastN_short [simp]: "length xs \<le> n \<Longrightarrow> lastN n xs = xs"
  by (simp add: lastN_def)

lemma length_lastN [simp]: "length (lastN n xs) = min n (length xs)"
  by (simp add: lastN_def)


lemma Logger_log_lastN:
  "length ls \<le> 100 \<Longrightarrow>
   Logger_log now lvl msg d ls =
     lastN 100 (ls @ [\<lparr>timestamp = now, level = lvl, message = msg, data = d\<rparr>])"
  by (cases ls; cases "length ls = 100") (auto simp add: Logger_log_def lastN_def Let_def)

lemma Logger_log_length: "length ls \<le> 100 \<Longrightarrow> length (Logger_log now lvl msg d ls) \<le> 100"
  by (simp add: Logger_log_lastN)









lemma subscribers_off:
  "subscribers ev (off ev l s) = filter (\<lambda>x. lid x \<noteq> lid l) (subscribers ev s)"
  by (simp add: subscribers_def off_def split: option.splits)



section \<open>Submission: the ledger entry and the result\<close>

lemma storeAttempt_attempts_map [simp]:
  "attempts_map (storeAttempt a s) = AList.update (ident a) a (attempts_map s)"
  by (simp add: storeAttempt_def)

lemma storeAttempt_trace [simp]: "trace (storeAttempt a s) = trace s @ [Stored a]"
  by (simp add: storeAttempt_def)

lemma settle_fields [simp]:
  "dispatcher (settle k e s) = Settled k e"
  "trace (settle k e s) = trace s @ [Ended k e]"
  by (simp_all add: settle_def)

lemma newAttempt_fields [simp]:
  "ident (newAttempt em aid s) = aid"
  "email (newAttempt em aid s) = em"
  "status (newAttempt em aid s) = PENDING"
  "attempts (newAttempt em aid s) = 0"
  "maxAttempts (newAttempt em aid s) = maxRetries (config s)"
  "createdAt (newAttempt em aid s) = clock s"
  "error (newAttempt em aid s) = None"
  by (simp_all add: newAttempt_def)











section \<open>Evaluating the service on the fixtures\<close>

text \<open>
  Neither the log nor the history is read by the service when it decides what to do next,
  so a run is evaluated on the state without them.
\<close>

lemmas dispatcher_defs = processQueue_def processEmailAttempt_def startRound_def
  afterProviders_def exhausted_def catchBlock_def providerSettled_def settle_def
  onResponse_def onTimer_def onSettled_def isCircuitBreakerOpen_def recordProviderSuccess_def
  recordProviderFailure_def incrementRateLimit_def checkRateLimit_def storeAttempt_def
  emit_def sendEmail_def findExistingAttempt_def isDuplicateOf_def newAttempt_def

lemmas eval_defs = dispatcher_defs drainQueue.simps logger_info_def logger_warn_def logger_error_def
  Let_def testConfig_def testEmail_def

definition core :: "Service \<Rightarrow> Service" where
  "core s = s\<lparr>logs := [], trace := []\<rparr>"

lemma core_eq: "core s = c \<Longrightarrow> s = c\<lparr>logs := logs s, trace := trace s\<rparr>"
  by (auto simp add: core_def)

definition closed :: CircuitBreaker where
  "closed = \<lparr>isOpen = False, failureCount = 0, lastFailureTime = None, halfOpenRetryTime = None\<rparr>"

lemma testService_core:
  "core (testService c) =
     \<lparr>providers = [''Provider1'', ''Provider2''], config = c, attempts_map = [],
      circuitBreakers = [''Provider1'' \<mapsto> closed, ''Provider2'' \<mapsto> closed],
      queue = [], processingQueue = False, logs = [], eventListeners = Map.empty,
      rateLimitState = \<lparr>count = 0, resetTime = 61000\<rparr>, clock = 1000, dispatcher = Idle,
      trace = []\<rparr>"
  by (simp add: fixture_defs logger_info_def core_def closed_def)

section \<open>The rate-limit counter\<close>

text \<open>A burst of two messages against a ceiling of one message per window.\<close>

definition burst0 :: Service where
  "burst0 = testService (testConfig\<lparr>rateLimitPerMinute := 1\<rparr>)"

definition burst1 :: Service where
  "burst1 = snd (sendEmail (testEmail ''a'') ''id1'' burst0)"

definition burst2 :: Service where
  "burst2 = snd (sendEmail (testEmail ''b'') ''id2'' burst1)"

lemma burst1_core:
  "fst (sendEmail (testEmail ''a'') ''id1'' burst0) = Inr ''id1''"
  "core burst1 = \<lparr>providers = [''Provider1'', ''Provider2''], config = testConfig\<lparr>rateLimitPerMinute := 1\<rparr>,
     attempts_map = [(''id1'', \<lparr>ident = ''id1'', email = testEmail ''a'', status = SENDING, attempts = 1,
        maxAttempts = 3, createdAt = 1000, updatedAt = 1000, sentAt = None, messageId = None,
        provider = None, error = None\<rparr>)],
     circuitBreakers = [''Provider1'' \<mapsto> closed, ''Provider2'' \<mapsto> closed],
     queue = [], processingQueue = True, logs = [], eventListeners = Map.empty,
     rateLimitState = \<lparr>count = 0, resetTime = 61000\<rparr>, clock = 1000,
     dispatcher = Awaiting ''id1'' 0 ''Provider1'' [''Provider2''], trace = []\<rparr>"
  unfolding burst1_def burst0_def
  by (subst core_eq [OF testService_core], simp add: eval_defs core_def closed_def)+

lemma burst2_core:
  "fst (sendEmail (testEmail ''b'') ''id2'' burst1) = Inr ''id2''"
  "core burst2 = \<lparr>providers = [''Provider1'', ''Provider2''], config = testConfig\<lparr>rateLimitPerMinute := 1\<rparr>,
     attempts_map = [(''id1'', \<lparr>ident = ''id1'', email = testEmail ''a'', status = SENDING, attempts = 1,
        maxAttempts = 3, createdAt = 1000, updatedAt = 1000, sentAt = None, messageId = None,
        provider = None, error = None\<rparr>),
       (''id2'', \<lparr>ident = ''id2'', email = testEmail ''b'', status = QUEUED, attempts = 0,
        maxAttempts = 3, createdAt = 1000, updatedAt = 1000, sentAt = None, messageId = None,
        provider = None, error = None\<rparr>)],
     circuitBreakers = [''Provider1'' \<mapsto> closed, ''Provider2'' \<mapsto> closed],
     queue = [''id2''], processingQueue = True, logs = [], eventListeners = Map.empty,
     rateLimitState = \<lparr>count = 0, resetTime = 61000\<rparr>, clock = 1000,
     dispatcher = Awaiting ''id1'' 0 ''Provider1'' [''Provider2''], trace = []\<rparr>"
  unfolding burst2_def
  by (subst core_eq [OF burst1_core(2)], simp add: eval_defs core_def closed_def)+

lemma burst2_sent:
  "count (rateLimitState (onResponse (Success (Some ''msg'')) burst2)) = 1"
  by (subst core_eq [OF burst2_core(2)], simp add: eval_defs core_def closed_def)

text \<open>
  Claim C1 (the admission check consumes the admission, and the dispatcher does not count
  again) does not hold of the code: \<open>checkRateLimit\<close> only compares, and the counter moves
  in the dispatcher's success path (\<open>incrementRateLimit\<close>).  With a ceiling of one message
  per window, two different messages submitted at the same instant are both admitted and
  the counter is still zero, while the dispatcher awaits the provider it has called for the
  first message; the counter becomes one when that call has succeeded.  The repository's
  test ``should enforce rate limits'' expects the message above the ceiling to be rejected
  in such a burst.
\<close>

theorem rate_limit_not_consumed_at_submission:
  "fst (sendEmail (testEmail ''a'') ''id1'' (testService (testConfig\<lparr>rateLimitPerMinute := 1\<rparr>))) = Inr ''id1'' \<and>
   fst (sendEmail (testEmail ''b'') ''id2''
          (snd (sendEmail (testEmail ''a'') ''id1'' (testService (testConfig\<lparr>rateLimitPerMinute := 1\<rparr>))))) = Inr ''id2'' \<and>
   count (rateLimitState (snd (sendEmail (testEmail ''b'') ''id2''
          (snd (sendEmail (testEmail ''a'') ''id1'' (testService (testConfig\<lparr>rateLimitPerMinute := 1\<rparr>))))))) = 0 \<and>
   dispatcher (snd (sendEmail (testEmail ''b'') ''id2''
          (snd (sendEmail (testEmail ''a'') ''id1'' (testService (testConfig\<lparr>rateLimitPerMinute := 1\<rparr>)))))) =
     Awaiting ''id1'' 0 ''Provider1'' [''Provider2''] \<and>
   count (rateLimitState (onResponse (Success (Some ''msg'')) (snd (sendEmail (testEmail ''b'') ''id2''
          (snd (sendEmail (testEmail ''a'') ''id1'' (testService (testConfig\<lparr>rateLimitPerMinute := 1\<rparr>)))))))) = 1"
proof -
  have 3: "count (rateLimitState burst2) = 0"
    by (subst core_eq [OF burst2_core(2)]) simp
  have 4: "dispatcher burst2 = Awaiting ''id1'' 0 ''Provider1'' [''Provider2'']"
    by (subst core_eq [OF burst2_core(2)]) simp
  show ?thesis
    using burst1_core(1) burst2_core(1) 3 4 burst2_sent unfolding burst2_def burst1_def burst0_def
    by simp
qed

end
